theory Spec2Isabelle
  imports Main
begin

section \<open>Python values\<close>

text \<open>
  The values that \<^verbatim>\<open>response.json()\<close> decodes and that the dictionary literals of
  \<^verbatim>\<open>server.py\<close> build. A \<^verbatim>\<open>dict\<close> is an association list in insertion order
  (the order \<^verbatim>\<open>json.dumps\<close> prints); its keys are distinct in a decoded value and
  lookups read the first binding. A \<^verbatim>\<open>char\<close> stands for one code point below
  U+0100. A \<^verbatim>\<open>float\<close> is held as the text \<^verbatim>\<open>float.__repr__\<close> gives for it, which is
  all the code ever asks of one (its truth value and its printed form).
\<close>

datatype json =
    JNull
  | JBool bool
  | JInt int
  | JFloat string
  | JStr string
  | JArr "json list"
  | JObj "(string \<times> json) list"

text \<open>
  Exceptions carry their class and the text \<^verbatim>\<open>str(e)\<close> gives. \<^verbatim>\<open>CancelledError\<close>
  derives from \<^verbatim>\<open>BaseException\<close> only, so \<^verbatim>\<open>except Exception\<close> does not catch it.
\<close>

datatype exn_class =
    TimeoutException
  | TransportError
  | HTTPStatusError
  | JSONDecodeError
  | TypeError
  | AttributeError
  | KeyError
  | IndexError
  | CancelledError

datatype exn = Exn exn_class string

fun is_Exception :: "exn \<Rightarrow> bool" where
  "is_Exception (Exn c m) = (c \<noteq> CancelledError)"

fun str_exn :: "exn \<Rightarrow> string" where
  "str_exn (Exn c m) = m"

fun type_name :: "json \<Rightarrow> string" where
  "type_name JNull = ''NoneType''"
| "type_name (JBool b) = ''bool''"
| "type_name (JInt i) = ''int''"
| "type_name (JFloat r) = ''float''"
| "type_name (JStr s) = ''str''"
| "type_name (JArr xs) = ''list''"
| "type_name (JObj kvs) = ''dict''"

definition squote :: char where
  "squote = CHR 0x27"

definition dquote :: char where
  "dquote = CHR 0x22"

definition backslash :: char where
  "backslash = CHR 0x5C"

text \<open>Truth value of a Python object, as \<^verbatim>\<open>x or y\<close> and \<^verbatim>\<open>a if x else b\<close> test it.\<close>

fun truthy :: "json \<Rightarrow> bool" where
  "truthy JNull = False"
| "truthy (JBool b) = b"
| "truthy (JInt i) = (i \<noteq> 0)"
| "truthy (JFloat r) = (r \<noteq> ''0.0'' \<and> r \<noteq> ''-0.0'')"
| "truthy (JStr s) = (s \<noteq> [])"
| "truthy (JArr xs) = (xs \<noteq> [])"
| "truthy (JObj kvs) = (kvs \<noteq> [])"

text \<open>\<^verbatim>\<open>len(v)\<close>: defined on strings, lists and dicts, \<^verbatim>\<open>TypeError\<close> elsewhere.\<close>

fun py_len :: "json \<Rightarrow> exn + nat" where
  "py_len (JStr s) = Inr (length s)"
| "py_len (JArr xs) = Inr (length xs)"
| "py_len (JObj kvs) = Inr (length (remdups (map fst kvs)))"
| "py_len v = Inl (Exn TypeError (''object of type '' @ [squote] @ type_name v @ [squote] @ '' has no len()''))"

text \<open>
  \<^verbatim>\<open>v[0]\<close>: the first element of a list, the first character of a string (a string of
  length one), \<^verbatim>\<open>KeyError(0)\<close> on a dict decoded from JSON (its keys are strings),
  \<^verbatim>\<open>TypeError\<close> on the other values.
\<close>

fun py_getitem0 :: "json \<Rightarrow> exn + json" where
  "py_getitem0 (JArr []) = Inl (Exn IndexError ''list index out of range'')"
| "py_getitem0 (JArr (x # xs)) = Inr x"
| "py_getitem0 (JStr []) = Inl (Exn IndexError ''string index out of range'')"
| "py_getitem0 (JStr (c # cs)) = Inr (JStr [c])"
| "py_getitem0 (JObj kvs) = Inl (Exn KeyError ''0'')"
| "py_getitem0 v = Inl (Exn TypeError ([squote] @ type_name v @ [squote] @ '' object is not subscriptable''))"

text \<open>\<^verbatim>\<open>v.get(k, d)\<close>: only a dict has the method.\<close>

fun py_get :: "json \<Rightarrow> string \<Rightarrow> json \<Rightarrow> exn + json" where
  "py_get (JObj kvs) k d = Inr (case map_of kvs k of None \<Rightarrow> d | Some v \<Rightarrow> v)"
| "py_get v k d = Inl (Exn AttributeError ([squote] @ type_name v @ [squote] @ '' object has no attribute '' @ [squote] @ ''get'' @ [squote]))"

subsection \<open>Decimal and hexadecimal digits\<close>

definition hex_digit :: "nat \<Rightarrow> char" where
  "hex_digit n = ''0123456789abcdef'' ! (n mod 16)"

function show_nat :: "nat \<Rightarrow> string" where
  "show_nat n = (if n < 10 then [hex_digit n] else show_nat (n div 10) @ [hex_digit (n mod 10)])"
  by pat_completeness auto
termination
  by (relation "measure id") auto

declare show_nat.simps [simp del]

definition show_int :: "int \<Rightarrow> string" where
  "show_int i = (if i < 0 then ''-'' @ show_nat (nat (- i)) else show_nat (nat i))"

definition hex2 :: "char \<Rightarrow> string" where
  "hex2 c = [hex_digit (of_char c div 16), hex_digit (of_char c mod 16)]"

subsection \<open>\<^verbatim>\<open>json.dumps\<close> with its default arguments\<close>

text \<open>
  Separators \<^verbatim>\<open>', '\<close> and \<^verbatim>\<open>': '\<close>, \<^verbatim>\<open>ensure_ascii=True\<close>: every character outside
  \<^verbatim>\<open>' '..'~'\<close> is escaped, the double quote and the backslash too.
\<close>

definition json_escape_char :: "char \<Rightarrow> string" where
  "json_escape_char c =
     (if c = dquote then [backslash, dquote]
      else if c = backslash then [backslash, backslash]
      else if c = CHR 0x0A then [backslash, CHR ''n'']
      else if c = CHR 0x0D then [backslash, CHR ''r'']
      else if c = CHR 0x09 then [backslash, CHR ''t'']
      else if c = CHR 0x08 then [backslash, CHR ''b'']
      else if c = CHR 0x0C then [backslash, CHR ''f'']
      else if (0x20::nat) \<le> of_char c \<and> of_char c \<le> (0x7E::nat) then [c]
      else [backslash] @ ''u00'' @ hex2 c)"

definition json_string :: "string \<Rightarrow> string" where
  "json_string s = [dquote] @ concat (map json_escape_char s) @ [dquote]"

definition json_float :: "string \<Rightarrow> string" where
  "json_float r =
     (if r = ''nan'' then ''NaN''
      else if r = ''inf'' then ''Infinity''
      else if r = ''-inf'' then ''-Infinity''
      else r)"

fun json_dumps :: "json \<Rightarrow> string"
  and dumps_items :: "json list \<Rightarrow> string"
  and dumps_members :: "(string \<times> json) list \<Rightarrow> string"
where
  "json_dumps JNull = ''null''"
| "json_dumps (JBool b) = (if b then ''true'' else ''false'')"
| "json_dumps (JInt i) = show_int i"
| "json_dumps (JFloat r) = json_float r"
| "json_dumps (JStr s) = json_string s"
| "json_dumps (JArr xs) = ''['' @ dumps_items xs @ '']''"
| "json_dumps (JObj kvs) = ''{'' @ dumps_members kvs @ ''}''"
| "dumps_items [] = []"
| "dumps_items [x] = json_dumps x"
| "dumps_items (x # y # ys) = json_dumps x @ '', '' @ dumps_items (y # ys)"
| "dumps_members [] = []"
| "dumps_members [(k, v)] = json_string k @ '': '' @ json_dumps v"
| "dumps_members ((k, v) # kv # kvs) =
     json_string k @ '': '' @ json_dumps v @ '', '' @ dumps_members (kv # kvs)"

subsection \<open>\<^verbatim>\<open>str\<close> and \<^verbatim>\<open>repr\<close>\<close>

text \<open>
  \<^verbatim>\<open>repr\<close> of a string: single quotes, unless the string holds a single quote and no
  double quote; the quote in use and the backslash are escaped, tab, newline and return
  have their letters, and the other unprintable characters are written \<^verbatim>\<open>\xhh\<close>. Below
  U+0100 the unprintable ones are the controls, U+00A0 and U+00AD.
\<close>

definition repr_quote :: "string \<Rightarrow> char" where
  "repr_quote s = (if squote \<in> set s \<and> dquote \<notin> set s then dquote else squote)"

definition repr_char :: "char \<Rightarrow> char \<Rightarrow> string" where
  "repr_char q c =
     (if c = q \<or> c = backslash then [backslash, c]
      else if c = CHR 0x09 then [backslash, CHR ''t'']
      else if c = CHR 0x0A then [backslash, CHR ''n'']
      else if c = CHR 0x0D then [backslash, CHR ''r'']
      else if (of_char c :: nat) < 0x20 \<or> (of_char c :: nat) = 0x7F then [backslash, CHR ''x''] @ hex2 c
      else if (of_char c :: nat) < 0x7F then [c]
      else if (of_char c :: nat) \<le> 0xA0 \<or> (of_char c :: nat) = 0xAD then [backslash, CHR ''x''] @ hex2 c
      else [c])"

definition repr_string :: "string \<Rightarrow> string" where
  "repr_string s = [repr_quote s] @ concat (map (repr_char (repr_quote s)) s) @ [repr_quote s]"

fun py_repr :: "json \<Rightarrow> string"
  and repr_items :: "json list \<Rightarrow> string"
  and repr_members :: "(string \<times> json) list \<Rightarrow> string"
where
  "py_repr JNull = ''None''"
| "py_repr (JBool b) = (if b then ''True'' else ''False'')"
| "py_repr (JInt i) = show_int i"
| "py_repr (JFloat r) = r"
| "py_repr (JStr s) = repr_string s"
| "py_repr (JArr xs) = ''['' @ repr_items xs @ '']''"
| "py_repr (JObj kvs) = ''{'' @ repr_members kvs @ ''}''"
| "repr_items [] = []"
| "repr_items [x] = py_repr x"
| "repr_items (x # y # ys) = py_repr x @ '', '' @ repr_items (y # ys)"
| "repr_members [] = []"
| "repr_members [(k, v)] = repr_string k @ '': '' @ py_repr v"
| "repr_members ((k, v) # kv # kvs) =
     repr_string k @ '': '' @ py_repr v @ '', '' @ repr_members (kv # kvs)"

text \<open>\<^verbatim>\<open>str(v)\<close>: a string is itself, every other value prints as its \<^verbatim>\<open>repr\<close>.\<close>

fun py_str :: "json \<Rightarrow> string" where
  "py_str (JStr s) = s"
| "py_str v = py_repr v"

section \<open>The world outside the process\<close>

text \<open>
  What the code reads from its environment: the clock (\<^verbatim>\<open>datetime.now()\<close>), the
  generator behind \<^verbatim>\<open>uuid.uuid4()\<close> (the \<open>n\<close>-th value it yields, as the 32 hexadecimal
  digits of \<^verbatim>\<open>.hex\<close>, and how many have been drawn), and the webhook server (what
  \<^verbatim>\<open>client.post\<close> does with a request). \<open>sent\<close> records the requests posted so far.
  Log lines are not modelled.
\<close>

record date =
  dt_year :: nat
  dt_month :: nat
  dt_day :: nat

record http_request =
  req_url :: string
  req_json :: json
  req_headers :: "(string \<times> string) list"
  req_timeout :: nat

text \<open>
  A response: its status code, the text of the \<^verbatim>\<open>HTTPStatusError\<close> that
  \<^verbatim>\<open>raise_for_status()\<close> raises for it, and what \<^verbatim>\<open>response.json()\<close> gives (the decoded
  body, or the exception the decoder raises).
\<close>

record http_response =
  status_code :: nat
  status_error :: string
  body_json :: "exn + json"

datatype post_outcome =
    Raises exn
  | Responds http_response

record world =
  now :: date
  uuid4_hex :: "nat \<Rightarrow> string"
  uuid_count :: nat
  server :: "http_request \<Rightarrow> post_outcome"
  sent :: "http_request list"

definition uuid4_draw :: "world \<Rightarrow> string \<times> world" where
  "uuid4_draw w = (uuid4_hex w (uuid_count w), w\<lparr>uuid_count := Suc (uuid_count w)\<rparr>)"

definition is_success :: "http_response \<Rightarrow> bool" where
  "is_success r = (200 \<le> status_code r \<and> status_code r \<le> 299)"

definition raise_for_status :: "http_response \<Rightarrow> exn option" where
  "raise_for_status r =
     (if is_success r then None else Some (Exn HTTPStatusError (status_error r)))"

section \<open>Vapi webhook for travel APIs\<close>

definition VAPI_WEBHOOK_URL :: string where
  "VAPI_WEBHOOK_URL = ''https://vapi-voice-agent.cfapps.eu10-004.hana.ondemand.com/vapi/webhook''"

definition VAPI_AUTH_TOKEN :: string where
  "VAPI_AUTH_TOKEN = ''ALxkU3FX_lyKF5zWYb0doeblCuvesYdkj1zHdrmUbxk''"

text \<open>Lines 50 to 59: the payload, with \<^verbatim>\<open>arguments or {}\<close>.\<close>

definition webhook_payload :: "string \<Rightarrow> json \<Rightarrow> string \<Rightarrow> string \<Rightarrow> json" where
  "webhook_payload function_name arguments tool_call_id call_id =
     JObj [
       (''message'', JObj [
          (''type'', JStr ''tool-calls''),
          (''toolCallList'', JArr [JObj [
             (''id'', JStr tool_call_id),
             (''function'', JObj [
                (''name'', JStr function_name),
                (''arguments'', if truthy arguments then arguments else JObj [])])]])]),
       (''call'', JObj [(''id'', JStr call_id)])]"

text \<open>Lines 62 to 70: the client's timeout and the arguments of \<^verbatim>\<open>client.post\<close>.\<close>

definition webhook_request :: "json \<Rightarrow> http_request" where
  "webhook_request payload =
     \<lparr>req_url = VAPI_WEBHOOK_URL,
      req_json = payload,
      req_headers = [(''Authorization'', ''Bearer '' @ VAPI_AUTH_TOKEN),
                     (''Content-Type'', ''application/json'')],
      req_timeout = 30\<rparr>"

text \<open>Lines 75 to 83: the result text chosen from the decoded response.\<close>

definition select_result :: "json \<Rightarrow> exn + json" where
  "select_result result =
     (case result of
        JObj kvs \<Rightarrow>
          (case map_of kvs ''results'' of
             Some results \<Rightarrow>
               (case py_len results of
                  Inl e \<Rightarrow> Inl e
                | Inr n \<Rightarrow>
                    if n > 0 then
                      (case py_getitem0 results of
                         Inl e \<Rightarrow> Inl e
                       | Inr first \<Rightarrow>
                           (case py_get first ''result'' (JStr []) of
                              Inl e \<Rightarrow> Inl e
                            | Inr tool_result \<Rightarrow>
                                Inr (if truthy tool_result then tool_result
                                     else JStr (json_dumps first))))
                    else
                      (case map_of kvs ''result'' of
                         Some v \<Rightarrow> Inr v
                       | None \<Rightarrow> Inr (JStr (json_dumps result))))
           | None \<Rightarrow>
               (case map_of kvs ''result'' of
                  Some v \<Rightarrow> Inr v
                | None \<Rightarrow> Inr (JStr (json_dumps result))))
      | _ \<Rightarrow> Inr (JStr (py_str result)))"

text \<open>Lines 62 to 83: the body of the \<^verbatim>\<open>try\<close>, given what the post did.\<close>

definition try_body :: "post_outcome \<Rightarrow> exn + json" where
  "try_body outcome =
     (case outcome of
        Raises e \<Rightarrow> Inl e
      | Responds response \<Rightarrow>
          (case raise_for_status response of
             Some e \<Rightarrow> Inl e
           | None \<Rightarrow>
               (case body_json response of
                  Inl e \<Rightarrow> Inl e
                | Inr result \<Rightarrow> select_result result)))"

text \<open>
  Lines 45 to 86. The result is \<open>Inr\<close> the value returned, or \<open>Inl\<close> the exception that
  leaves the function: \<^verbatim>\<open>except Exception\<close> turns the others into the error text.
\<close>

definition call_vapi_webhook :: "string \<Rightarrow> json \<Rightarrow> world \<Rightarrow> (exn + json) \<times> world" where
  "call_vapi_webhook function_name arguments w =
     (let (u1, w1) = uuid4_draw w;
          tool_call_id = function_name @ ''-'' @ take 8 u1;
          (u2, w2) = uuid4_draw w1;
          call_id = ''call-'' @ take 8 u2;
          payload = webhook_payload function_name arguments tool_call_id call_id;
          request = webhook_request payload;
          w3 = w2\<lparr>sent := sent w2 @ [request]\<rparr>
      in (case try_body (server w3 request) of
            Inl e \<Rightarrow>
              if is_Exception e
              then Inr (JStr (''Error calling travel service: '' @ str_exn e))
              else Inl e
          | Inr v \<Rightarrow> Inr v,
          w3))"

section \<open>Travel tool definitions (OpenAI function calling)\<close>

definition TRAVEL_TOOLS :: "json list" where
  "TRAVEL_TOOLS = [
     JObj [
       (''type'', JStr ''function''),
       (''function'', JObj [
         (''name'', JStr ''get_current_date''),
         (''description'', JStr ''Get the current date. Call this for relative date calculations.''),
         (''parameters'', JObj [(''type'', JStr ''object''), (''properties'', JObj []), (''required'', JArr [])])])],
     JObj [
       (''type'', JStr ''function''),
       (''function'', JObj [
         (''name'', JStr ''search_flights''),
         (''description'', JStr ''Search for available flights between two locations on a specific date.''),
         (''parameters'', JObj [
           (''type'', JStr ''object''),
           (''properties'', JObj [
             (''origin'', JObj [
               (''type'', JStr ''string''),
               (''description'', JStr ''Origin city or airport code'')]),
             (''destination'', JObj [
               (''type'', JStr ''string''),
               (''description'', JStr ''Destination city or airport code'')]),
             (''departure_date'', JObj [
               (''type'', JStr ''string''),
               (''description'', JStr ''Departure date YYYY-MM-DD'')])]),
           (''required'', JArr [JStr ''origin'', JStr ''destination'', JStr ''departure_date''])])])],
     JObj [
       (''type'', JStr ''function''),
       (''function'', JObj [
         (''name'', JStr ''book_flight''),
         (''description'', JStr ''Book a selected flight. Only call after user explicitly confirms.''),
         (''parameters'', JObj [
           (''type'', JStr ''object''),
           (''properties'', JObj [
             (''journey_id'', JObj [(''type'', JStr ''string'')]),
             (''offer_id'', JObj [(''type'', JStr ''string'')]),
             (''carrier_name'', JObj [(''type'', JStr ''string'')]),
             (''origin'', JObj [(''type'', JStr ''string'')]),
             (''destination'', JObj [(''type'', JStr ''string'')]),
             (''departure_time'', JObj [(''type'', JStr ''string'')]),
             (''arrival_time'', JObj [(''type'', JStr ''string'')]),
             (''price_amount'', JObj [(''type'', JStr ''number'')]),
             (''currency_code'', JObj [(''type'', JStr ''string'')]),
             (''cabin_class'', JObj [(''type'', JStr ''string'')]),
             (''passenger_name'', JObj [(''type'', JStr ''string'')])]),
           (''required'', JArr [
             JStr ''journey_id'',
             JStr ''offer_id'',
             JStr ''carrier_name'',
             JStr ''origin'',
             JStr ''destination'',
             JStr ''departure_time'',
             JStr ''arrival_time'',
             JStr ''price_amount'',
             JStr ''currency_code'',
             JStr ''cabin_class''])])])],
     JObj [
       (''type'', JStr ''function''),
       (''function'', JObj [
         (''name'', JStr ''search_hotels''),
         (''description'', JStr ''Search for available hotels in a destination city.''),
         (''parameters'', JObj [
           (''type'', JStr ''object''),
           (''properties'', JObj [
             (''destination'', JObj [(''type'', JStr ''string'')]),
             (''check_in_date'', JObj [(''type'', JStr ''string''), (''description'', JStr ''YYYY-MM-DD'')]),
             (''check_out_date'', JObj [(''type'', JStr ''string''), (''description'', JStr ''YYYY-MM-DD'')])]),
           (''required'', JArr [JStr ''destination'', JStr ''check_in_date'', JStr ''check_out_date''])])])],
     JObj [
       (''type'', JStr ''function''),
       (''function'', JObj [
         (''name'', JStr ''book_hotel''),
         (''description'', JStr ''Book a selected hotel. Only call after user explicitly confirms.''),
         (''parameters'', JObj [
           (''type'', JStr ''object''),
           (''properties'', JObj [
             (''hotel_name'', JObj [(''type'', JStr ''string'')]),
             (''hotel_address'', JObj [(''type'', JStr ''string'')]),
             (''city'', JObj [(''type'', JStr ''string'')]),
             (''check_in_date'', JObj [(''type'', JStr ''string'')]),
             (''check_out_date'', JObj [(''type'', JStr ''string'')]),
             (''room_type'', JObj [(''type'', JStr ''string'')]),
             (''price_per_night'', JObj [(''type'', JStr ''number'')]),
             (''total_price'', JObj [(''type'', JStr ''number'')]),
             (''currency_code'', JObj [(''type'', JStr ''string'')]),
             (''guest_name'', JObj [(''type'', JStr ''string'')]),
             (''star_rating'', JObj [(''type'', JStr ''number'')])]),
           (''required'', JArr [
             JStr ''hotel_name'',
             JStr ''hotel_address'',
             JStr ''city'',
             JStr ''check_in_date'',
             JStr ''check_out_date'',
             JStr ''room_type'',
             JStr ''price_per_night'',
             JStr ''total_price'',
             JStr ''currency_code''])])])]]"

text \<open>Reading a schema entry: \<^verbatim>\<open>t["function"]["name"]\<close> and
  \<^verbatim>\<open>t["function"]["parameters"]["required"]\<close>.\<close>

definition json_field :: "string \<Rightarrow> json \<Rightarrow> json option" where
  "json_field k v = (case v of JObj kvs \<Rightarrow> map_of kvs k | _ \<Rightarrow> None)"

fun json_strings :: "json list \<Rightarrow> string list option" where
  "json_strings [] = Some []"
| "json_strings (JStr s # vs) = map_option ((#) s) (json_strings vs)"
| "json_strings (v # vs) = None"

definition tool_name :: "json \<Rightarrow> string option" where
  "tool_name t =
     (case Option.bind (json_field ''function'' t) (json_field ''name'') of
        Some (JStr n) \<Rightarrow> Some n
      | _ \<Rightarrow> None)"

definition tool_required :: "json \<Rightarrow> string list option" where
  "tool_required t =
     (case Option.bind (Option.bind (json_field ''function'' t) (json_field ''parameters''))
             (json_field ''required'') of
        Some (JArr vs) \<Rightarrow> json_strings vs
      | _ \<Rightarrow> None)"

definition WELCOME_MESSAGE :: string where
  "WELCOME_MESSAGE =
     ''Hey there! I'm Travel Buddy, your personal travel assistant. '' @
     ''I can help you search and book flights and hotels. '' @
     ''Where would you like to go?''"

section \<open>Tool handlers\<close>

text \<open>
  \<^verbatim>\<open>strftime("%Y-%m-%d")\<close>: the year in four digits, month and day in two, zero-padded.
  (Platforms differ on the padding of years below 1000; a clock does not stand there.)
\<close>

definition zero_pad :: "nat \<Rightarrow> string \<Rightarrow> string" where
  "zero_pad n s = replicate (n - length s) (CHR ''0'') @ s"

definition strftime_Ymd :: "date \<Rightarrow> string" where
  "strftime_Ymd d =
     zero_pad 4 (show_nat (dt_year d)) @ ''-'' @
     zero_pad 2 (show_nat (dt_month d)) @ ''-'' @
     zero_pad 2 (show_nat (dt_day d))"

text \<open>
  What one run of a handler did: the values it passed to \<^verbatim>\<open>params.result_callback\<close>, in
  order, and the exception that left the handler, if one did.
\<close>

record handler_run =
  callbacks :: "json list"
  raised :: "exn option"

type_synonym handler = "(string \<times> json) list \<Rightarrow> world \<Rightarrow> handler_run \<times> world"

definition handle_get_current_date :: handler where
  "handle_get_current_date args w =
     (let result = strftime_Ymd (now w)
      in (\<lparr>callbacks = [JStr result], raised = None\<rparr>, w))"

text \<open>
  The last two lines of the four webhook handlers: the callback is awaited with the
  value \<^verbatim>\<open>call_vapi_webhook\<close> returned; an exception leaving the call leaves the handler.
\<close>

definition then_result_callback :: "(exn + json) \<times> world \<Rightarrow> handler_run \<times> world" where
  "then_result_callback rw =
     (case rw of
        (Inl e, w') \<Rightarrow> (\<lparr>callbacks = [], raised = Some e\<rparr>, w')
      | (Inr result, w') \<Rightarrow> (\<lparr>callbacks = [result], raised = None\<rparr>, w'))"

definition handle_search_flights :: handler where
  "handle_search_flights args w =
     then_result_callback (call_vapi_webhook ''search_flights'' (JObj args) w)"

definition handle_book_flight :: handler where
  "handle_book_flight args w =
     then_result_callback (call_vapi_webhook ''book_flight'' (JObj args) w)"

definition handle_search_hotels :: handler where
  "handle_search_hotels args w =
     then_result_callback (call_vapi_webhook ''search_hotels'' (JObj args) w)"

definition handle_book_hotel :: handler where
  "handle_book_hotel args w =
     then_result_callback (call_vapi_webhook ''book_hotel'' (JObj args) w)"

section \<open>Bot pipeline\<close>

text \<open>
  One call of \<^verbatim>\<open>llm.register_function\<close>: the name, the handler, and the keyword
  \<^verbatim>\<open>cancel_on_interruption\<close> when the call passes it (\<open>None\<close> when it does not, and the
  framework's default applies).
\<close>

record registration =
  reg_name :: string
  reg_handler :: handler
  reg_cancel_on_interruption :: "bool option"

definition cancel_on_interruption :: "bool \<Rightarrow> registration \<Rightarrow> bool" where
  "cancel_on_interruption framework_default r =
     (case reg_cancel_on_interruption r of None \<Rightarrow> framework_default | Some b \<Rightarrow> b)"

text \<open>
  The frames: the two that the code constructs, \<^verbatim>\<open>TTSSpeakFrame\<close> and \<^verbatim>\<open>EndFrame\<close>, and
  those of the specification's data model that travel between the stages (inbound
  audio of one utterance, its final transcript, the snapshot of the conversation handed
  to the LLM, the text the LLM produces, the audio the synthesizer produces).
\<close>

datatype role =
    User
  | Assistant

type_synonym conversation = "(role \<times> string) list"

type_synonym audio = string

datatype frame =
    TTSSpeakFrame string
  | EndFrame
  | Audio audio
  | TranscriptFinal string
  | Snapshot conversation
  | LLMTextDelta string
  | SynthesisChunk audio

text \<open>The seven processors that lines 309 to 317 hand to \<^verbatim>\<open>Pipeline\<close>.\<close>

datatype stage =
    Transport_input
  | Stt
  | Context_user
  | Llm
  | Tts
  | Transport_output
  | Context_assistant

text \<open>
  What \<^verbatim>\<open>run_bot\<close> builds for one client before the runner starts: the functions
  registered on the LLM service (lines 291 to 295), the \<^verbatim>\<open>tools\<close> of the
  \<^verbatim>\<open>OpenAILLMContext\<close> (line 306), the stages of the \<^verbatim>\<open>Pipeline\<close> in their order
  (lines 309 to 317), the keywords of \<^verbatim>\<open>PipelineParams\<close> (lines 321 to 325) and the
  frames queued on the task so far.
\<close>

record bot =
  bot_functions :: "registration list"
  bot_tools :: "json list"
  bot_pipeline :: "stage list"
  bot_params :: "(string \<times> bool) list"
  bot_queue :: "frame list"

definition run_bot :: bot where
  "run_bot =
     \<lparr>bot_functions = [
        \<lparr>reg_name = ''get_current_date'', reg_handler = handle_get_current_date,
         reg_cancel_on_interruption = None\<rparr>,
        \<lparr>reg_name = ''search_flights'', reg_handler = handle_search_flights,
         reg_cancel_on_interruption = Some False\<rparr>,
        \<lparr>reg_name = ''book_flight'', reg_handler = handle_book_flight,
         reg_cancel_on_interruption = Some False\<rparr>,
        \<lparr>reg_name = ''search_hotels'', reg_handler = handle_search_hotels,
         reg_cancel_on_interruption = Some False\<rparr>,
        \<lparr>reg_name = ''book_hotel'', reg_handler = handle_book_hotel,
         reg_cancel_on_interruption = Some False\<rparr>],
      bot_tools = TRAVEL_TOOLS,
      bot_pipeline = [Transport_input, Stt, Context_user, Llm, Tts, Transport_output,
                      Context_assistant],
      bot_params = [(''allow_interruptions'', True), (''enable_metrics'', True),
                    (''enable_usage_metrics'', True)],
      bot_queue = []\<rparr>"

definition on_client_connected :: "bot \<Rightarrow> bot" where
  "on_client_connected b = b\<lparr>bot_queue := bot_queue b @ [TTSSpeakFrame WELCOME_MESSAGE]\<rparr>"

definition on_client_disconnected :: "bot \<Rightarrow> bot" where
  "on_client_disconnected b = b\<lparr>bot_queue := bot_queue b @ [EndFrame]\<rparr>"

text \<open>The transport's events, delivered to the handler registered under their name.\<close>

datatype transport_event =
    Client_connected
  | Client_disconnected

fun on_event :: "transport_event \<Rightarrow> bot \<Rightarrow> bot" where
  "on_event Client_connected b = on_client_connected b"
| "on_event Client_disconnected b = on_client_disconnected b"

fun on_events :: "transport_event list \<Rightarrow> bot \<Rightarrow> bot" where
  "on_events [] b = b"
| "on_events (ev # evs) b = on_events evs (on_event ev b)"

section \<open>The framework around the handlers\<close>









text \<open>
  Modelled from the spec: what an \<^verbatim>\<open>Interrupt\<close> does to a tool call in flight (sections
  4.5 and 5, ``calls flagged non-cancellable are NOT aborted by an Interrupt'', and the
  comment on line 290; the dispatch is the framework's code, which is not under
  \<^verbatim>\<open>src/\<close>). A call whose turn is interrupted is aborted when its registration is
  cancellable, and an aborted call gives no result; every other call is the run of its
  handler.
\<close>

definition run_call :: "bool \<Rightarrow> registration \<Rightarrow> bool \<Rightarrow> (string \<times> json) list \<Rightarrow> world
    \<Rightarrow> handler_run \<times> world" where
  "run_call framework_default r interrupted args w =
     (if interrupted \<and> cancel_on_interruption framework_default r
      then (\<lparr>callbacks = [], raised = Some (Exn CancelledError [])\<rparr>, w)
      else reg_handler r args w)"

section \<open>Vocabulary of the properties\<close>

text \<open>\<^verbatim>\<open>isinstance(v, dict)\<close>.\<close>

fun is_dict :: "json \<Rightarrow> bool" where
  "is_dict (JObj kvs) = True"
| "is_dict v = False"

text \<open>The request a call of \<^verbatim>\<open>call_vapi_webhook\<close> posts: the last one it records.\<close>

definition posted :: "string \<Rightarrow> json \<Rightarrow> world \<Rightarrow> http_request" where
  "posted function_name arguments w = last (sent (snd (call_vapi_webhook function_name arguments w)))"

text \<open>
  The two correlation identifiers of a request:
  \<^verbatim>\<open>payload["message"]["toolCallList"][0]["id"]\<close> and \<^verbatim>\<open>payload["call"]["id"]\<close>.
\<close>

definition tool_call_id_of :: "http_request \<Rightarrow> json option" where
  "tool_call_id_of req =
     (case Option.bind (json_field ''message'' (req_json req)) (json_field ''toolCallList'') of
        Some (JArr (call # calls)) \<Rightarrow> json_field ''id'' call
      | _ \<Rightarrow> None)"

definition call_id_of :: "http_request \<Rightarrow> json option" where
  "call_id_of req = Option.bind (json_field ''call'' (req_json req)) (json_field ''id'')"

text \<open>
  A post that no \<^verbatim>\<open>BaseException\<close> outside \<^verbatim>\<open>Exception\<close> interrupts: whatever is raised
  by the post or by the decoder is an \<^verbatim>\<open>Exception\<close>.
\<close>

fun uncancelled :: "post_outcome \<Rightarrow> bool" where
  "uncancelled (Raises e) = is_Exception e"
| "uncancelled (Responds r) = (case body_json r of Inl e \<Rightarrow> is_Exception e | Inr v \<Rightarrow> True)"

text \<open>The registration made under a name.\<close>

definition registered :: "bot \<Rightarrow> string \<Rightarrow> registration option" where
  "registered b n = find (\<lambda>r. reg_name r = n) (bot_functions b)"

subsection \<open>Concrete worlds\<close>

text \<open>
  Two generators of version-4 identifiers, one whose first values differ from each other
  but agree on their first eight digits and one whose values differ in those digits; a
  clock at 2024-03-10; servers that time out, answer with status 500, or answer 200 with
  a given body.
\<close>

definition uuids_9f1c :: "nat \<Rightarrow> string" where
  "uuids_9f1c n = ''9f1c2a7b00004000800000000000'' @ show_nat (1000 + n mod 9000)"

definition uuids_counting :: "nat \<Rightarrow> string" where
  "uuids_counting n = show_nat (10000000 + n mod 1000) @ ''000040008000000000000000''"

definition world_with :: "post_outcome \<Rightarrow> world" where
  "world_with outcome =
     \<lparr>now = \<lparr>dt_year = 2024, dt_month = 3, dt_day = 10\<rparr>,
      uuid4_hex = uuids_9f1c,
      uuid_count = 0,
      server = (\<lambda>request. outcome),
      sent = []\<rparr>"

definition answering :: "json \<Rightarrow> world" where
  "answering body =
     world_with (Responds \<lparr>status_code = 200, status_error = [], body_json = Inr body\<rparr>)"

definition timing_out :: world where
  "timing_out = world_with (Raises (Exn TimeoutException ''timed out''))"

definition failing_500 :: world where
  "failing_500 =
     world_with (Responds \<lparr>status_code = 500,
       status_error = ''Server error 500 Internal Server Error'',
       body_json = Inl (Exn JSONDecodeError ''Expecting value: line 1 column 1 (char 0)'')\<rparr>)"

definition counting :: world where
  "counting = (answering (JObj []))\<lparr>uuid4_hex := uuids_counting\<rparr>"

text \<open>The form \<^verbatim>\<open>YYYY-MM-DD\<close>: ten characters, digits around two hyphens.\<close>

definition is_digit :: "char \<Rightarrow> bool" where
  "is_digit c = (c \<in> set ''0123456789'')"

definition ymd_shaped :: "string \<Rightarrow> bool" where
  "ymd_shaped s =
     (length s = 10 \<and> list_all is_digit (take 4 s) \<and> s ! 4 = CHR ''-''
      \<and> list_all is_digit (take 2 (drop 5 s)) \<and> s ! 7 = CHR ''-''
      \<and> list_all is_digit (drop 8 s))"

text \<open>Reading the form back: the three numbers that the digits write.\<close>

definition digit_value :: "char \<Rightarrow> nat" where
  "digit_value c = of_char c - 48"

definition read_nat :: "string \<Rightarrow> nat" where
  "read_nat s = foldl (\<lambda>n c. 10 * n + digit_value c) 0 s"

definition read_ymd :: "string \<Rightarrow> date option" where
  "read_ymd s =
     (if ymd_shaped s
      then Some \<lparr>dt_year = read_nat (take 4 s),
                 dt_month = read_nat (take 2 (drop 5 s)),
                 dt_day = read_nat (drop 8 s)\<rparr>
      else None)"

text \<open>A clock at 1999-12-31, a server whose post is cancelled, and three backends.\<close>

definition new_years_eve :: world where
  "new_years_eve = timing_out\<lparr>now := \<lparr>dt_year = 1999, dt_month = 12, dt_day = 31\<rparr>\<rparr>"

definition cancelled_at_post :: world where
  "cancelled_at_post = world_with (Raises (Exn CancelledError []))"


section \<open>The webhook call, step by step\<close>

lemma call_vapi_webhook_eq:
  "call_vapi_webhook fn args w =
     (let request = webhook_request (webhook_payload fn args
                      (fn @ ''-'' @ take 8 (uuid4_hex w (uuid_count w)))
                      (''call-'' @ take 8 (uuid4_hex w (Suc (uuid_count w)))))
      in (case try_body (server w request) of
            Inl e \<Rightarrow> if is_Exception e
                     then Inr (JStr (''Error calling travel service: '' @ str_exn e))
                     else Inl e
          | Inr v \<Rightarrow> Inr v,
          w\<lparr>uuid_count := Suc (Suc (uuid_count w)), sent := sent w @ [request]\<rparr>))"
  by (simp add: call_vapi_webhook_def uuid4_draw_def Let_def)

lemma posted_eq:
  "posted fn args w =
     webhook_request (webhook_payload fn args
       (fn @ ''-'' @ take 8 (uuid4_hex w (uuid_count w)))
       (''call-'' @ take 8 (uuid4_hex w (Suc (uuid_count w)))))"
  by (simp add: posted_def call_vapi_webhook_eq Let_def)

lemma fst_call_vapi_webhook:
  "fst (call_vapi_webhook fn args w) =
     (case try_body (server w (posted fn args w)) of
        Inl e \<Rightarrow> if is_Exception e
                 then Inr (JStr (''Error calling travel service: '' @ str_exn e))
                 else Inl e
      | Inr v \<Rightarrow> Inr v)"
  by (simp add: posted_eq call_vapi_webhook_eq Let_def)

lemma snd_call_vapi_webhook:
  "snd (call_vapi_webhook fn args w) =
     w\<lparr>uuid_count := Suc (Suc (uuid_count w)), sent := sent w @ [posted fn args w]\<rparr>"
  by (simp add: posted_eq call_vapi_webhook_eq Let_def)

lemma try_body_decoded:
  "outcome = Responds r \<Longrightarrow> is_success r \<Longrightarrow> body_json r = Inr result \<Longrightarrow>
   try_body outcome = select_result result"
  by (simp add: try_body_def raise_for_status_def)

text \<open>Whatever the lookups of lines 76 to 78 raise is an \<^verbatim>\<open>Exception\<close>.\<close>

lemma py_len_is_Exception: "py_len v = Inl e \<Longrightarrow> is_Exception e"
  by (cases v) auto

lemma py_getitem0_is_Exception: "py_getitem0 v = Inl e \<Longrightarrow> is_Exception e"
  by (cases v rule: py_getitem0.cases) auto

lemma py_get_is_Exception: "py_get v k d = Inl e \<Longrightarrow> is_Exception e"
  by (cases v) auto

lemma select_result_is_Exception: "select_result result = Inl e \<Longrightarrow> is_Exception e"
  by (auto simp: select_result_def split: json.splits option.splits sum.splits if_splits
           dest: py_len_is_Exception py_getitem0_is_Exception py_get_is_Exception)

lemma server_world_with: "server (world_with outcome) req = outcome"
  by (simp add: world_with_def)

lemma server_answering:
  "server (answering body) req =
     Responds \<lparr>status_code = 200, status_error = [], body_json = Inr body\<rparr>"
  by (simp add: answering_def world_with_def)

section \<open>A response that is not a mapping\<close>

text \<open>
  C10. When the decoded response is not a \<^verbatim>\<open>dict\<close> (a list, a number, a string, a
  boolean, \<^verbatim>\<open>None\<close>), \<^verbatim>\<open>call_vapi_webhook\<close> returns \<^verbatim>\<open>str(result)\<close>: the three-way
  choice of lines 76 to 82 is skipped and \<^verbatim>\<open>json.dumps\<close> is not applied.
\<close>

theorem call_vapi_webhook_not_mapping:
  assumes "server w (posted fn args w) = Responds r"
    and "is_success r"
    and "body_json r = Inr result"
    and "\<not> is_dict result"
  shows "fst (call_vapi_webhook fn args w) = Inr (JStr (py_str result))"
proof -
  have "try_body (server w (posted fn args w)) = select_result result"
    using assms(1-3) by (rule try_body_decoded)
  moreover have "select_result result = Inr (JStr (py_str result))"
    using assms(4) by (cases result) (simp_all add: select_result_def)
  ultimately show ?thesis
    by (simp add: fst_call_vapi_webhook)
qed

text \<open>
  At the list \<^verbatim>\<open>["a", null]\<close> the call returns \<^verbatim>\<open>['a', None]\<close>, which is not the text
  \<^verbatim>\<open>json.dumps\<close> gives.
\<close>

theorem call_vapi_webhook_not_mapping_witness:
  "fst (call_vapi_webhook ''search_hotels'' (JObj []) (answering (JArr [JStr ''a'', JNull])))
     = Inr (JStr (''['' @ [squote] @ ''a'' @ [squote] @ '', None]''))
   \<and> json_dumps (JArr [JStr ''a'', JNull]) = ''['' @ [dquote] @ ''a'' @ [dquote] @ '', null]''"
proof -
  have "fst (call_vapi_webhook ''search_hotels'' (JObj []) (answering (JArr [JStr ''a'', JNull])))
          = Inr (JStr (py_str (JArr [JStr ''a'', JNull])))"
    by (rule call_vapi_webhook_not_mapping [OF server_answering])
       (simp_all add: is_success_def)
  moreover have "py_str (JArr [JStr ''a'', JNull]) = ''['' @ [squote] @ ''a'' @ [squote] @ '', None]''"
    by (simp add: repr_string_def repr_quote_def repr_char_def squote_def dquote_def
          backslash_def)
  moreover have "json_dumps (JArr [JStr ''a'', JNull]) = ''['' @ [dquote] @ ''a'' @ [dquote] @ '', null]''"
    by (simp add: json_string_def json_escape_char_def dquote_def backslash_def)
  ultimately show ?thesis by simp
qed

section \<open>The precedence of the response shapes\<close>

lemma py_len_zero_iff:
  "py_len rs = Inr 0 \<longleftrightarrow> rs = JArr [] \<or> rs = JStr [] \<or> rs = JObj []"
  by (cases rs) auto

lemma select_result_first_mapping:
  "map_of kvs ''results'' = Some (JArr (JObj first # rest)) \<Longrightarrow>
   select_result (JObj kvs) =
     Inr (case map_of first ''result'' of
            Some v \<Rightarrow> if truthy v then v else JStr (json_dumps (JObj first))
          | None \<Rightarrow> JStr (json_dumps (JObj first)))"
  by (simp add: select_result_def split: option.splits)

lemma select_result_no_results:
  "map_of kvs ''results'' = None \<or> (\<exists>rs. map_of kvs ''results'' = Some rs \<and> py_len rs = Inr 0) \<Longrightarrow>
   select_result (JObj kvs) =
     Inr (case map_of kvs ''result'' of
            Some v \<Rightarrow> v
          | None \<Rightarrow> JStr (json_dumps (JObj kvs)))"
  by (auto simp: select_result_def split: option.splits)

lemma select_result_raises:
  assumes "map_of kvs ''results'' = Some rs"
    and "py_len rs \<noteq> Inr 0"
    and "\<nexists>first rest. rs = JArr (JObj first # rest)"
  shows "\<exists>e. select_result (JObj kvs) = Inl e"
proof (cases rs)
  case (JArr xs)
  with assms(2) obtain x xs' where xs: "xs = x # xs'" by (cases xs) auto
  with JArr assms(3) have "\<not> is_dict x" by (cases x) auto
  then have "\<exists>e. py_get x ''result'' (JStr []) = Inl e" by (cases x) auto
  with JArr xs assms(1) show ?thesis by (auto simp: select_result_def)
next
  case (JStr s)
  with assms(2) obtain c cs where "s = c # cs" by (cases s) auto
  with JStr assms(1) show ?thesis by (simp add: select_result_def)
next
  case (JObj kvs')
  with assms(2) have "kvs' \<noteq> []" by auto
  with JObj assms(1) show ?thesis by (simp add: select_result_def)
qed (use assms(1) in \<open>simp_all add: select_result_def\<close>)

text \<open>
  C1, as the code has it. For a 2xx response whose decoded body is a \<^verbatim>\<open>dict\<close>:
  when \<^verbatim>\<open>"results"\<close> is a list whose first element is a \<^verbatim>\<open>dict\<close>, the call returns
  that element's \<^verbatim>\<open>"result"\<close> field if it is present and true in Python's sense (not
  \<^verbatim>\<open>None\<close>, \<^verbatim>\<open>False\<close>, zero or empty), and the \<^verbatim>\<open>json.dumps\<close> of the element otherwise;
  when \<^verbatim>\<open>"results"\<close> is absent or has length zero, it returns the \<^verbatim>\<open>"result"\<close> field as
  it is when the \<^verbatim>\<open>dict\<close> has one, and the \<^verbatim>\<open>json.dumps\<close> of the whole \<^verbatim>\<open>dict\<close>
  otherwise; for every other \<^verbatim>\<open>"results"\<close> (a value without a length, a non-empty
  string or \<^verbatim>\<open>dict\<close>, a list whose first element is not a \<^verbatim>\<open>dict\<close>) a lookup raises
  inside the \<^verbatim>\<open>try\<close> and the call returns the error text.
\<close>

theorem call_vapi_webhook_precedence:
  assumes "server w (posted fn args w) = Responds r"
    and "is_success r"
    and "body_json r = Inr (JObj kvs)"
  shows "(map_of kvs ''results'' = Some (JArr (JObj first # rest)) \<longrightarrow>
            fst (call_vapi_webhook fn args w) =
              Inr (case map_of first ''result'' of
                     Some v \<Rightarrow> if truthy v then v else JStr (json_dumps (JObj first))
                   | None \<Rightarrow> JStr (json_dumps (JObj first))))
       \<and> (map_of kvs ''results'' = None
            \<or> (\<exists>rs. map_of kvs ''results'' = Some rs \<and> py_len rs = Inr 0) \<longrightarrow>
            fst (call_vapi_webhook fn args w) =
              Inr (case map_of kvs ''result'' of
                     Some v \<Rightarrow> v
                   | None \<Rightarrow> JStr (json_dumps (JObj kvs))))
       \<and> (map_of kvs ''results'' = Some rs \<and> py_len rs \<noteq> Inr 0
            \<and> (\<nexists>first rest. rs = JArr (JObj first # rest)) \<longrightarrow>
            (\<exists>m. fst (call_vapi_webhook fn args w) =
                    Inr (JStr (''Error calling travel service: '' @ m))))"
proof -
  have body: "try_body (server w (posted fn args w)) = select_result (JObj kvs)"
    using assms by (rule try_body_decoded)
  have "fst (call_vapi_webhook fn args w) = Inr (JStr (''Error calling travel service: '' @ str_exn e))"
    if "select_result (JObj kvs) = Inl e" for e
    using that select_result_is_Exception [OF that] by (simp add: fst_call_vapi_webhook body)
  then have third: "\<exists>m. fst (call_vapi_webhook fn args w) = Inr (JStr (''Error calling travel service: '' @ m))"
    if "map_of kvs ''results'' = Some rs" "py_len rs \<noteq> Inr 0"
       "\<nexists>first rest. rs = JArr (JObj first # rest)"
    using select_result_raises [OF that] by blast
  show ?thesis
    using third
    by (auto simp: fst_call_vapi_webhook body select_result_first_mapping
          select_result_no_results simp del: not_ex)
qed

text \<open>
  The three responses of the specification, \<^verbatim>\<open>{"results":[{"result":"ok"}]}\<close>,
  \<^verbatim>\<open>{"result":"x"}\<close> and \<^verbatim>\<open>{"foo":1}\<close>, and one of the last kind.
\<close>

theorem call_vapi_webhook_precedence_witness:
  "fst (call_vapi_webhook ''search_flights'' (JObj [])
         (answering (JObj [(''results'', JArr [JObj [(''result'', JStr ''ok'')]])])))
     = Inr (JStr ''ok'')
   \<and> fst (call_vapi_webhook ''search_flights'' (JObj [])
         (answering (JObj [(''result'', JStr ''x'')])))
     = Inr (JStr ''x'')
   \<and> fst (call_vapi_webhook ''search_flights'' (JObj [])
         (answering (JObj [(''foo'', JInt 1)])))
     = Inr (JStr (''{'' @ [dquote] @ ''foo'' @ [dquote] @ '': 1}''))
   \<and> (\<exists>m. fst (call_vapi_webhook ''search_flights'' (JObj [])
         (answering (JObj [(''results'', JArr [JInt 7])])))
     = Inr (JStr (''Error calling travel service: '' @ m)))"
proof -
  let ?r = "\<lambda>body. \<lparr>status_code = 200, status_error = [], body_json = Inr body\<rparr>"
  have a: "fst (call_vapi_webhook ''search_flights'' (JObj [])
         (answering (JObj [(''results'', JArr [JObj [(''result'', JStr ''ok'')]])])))
     = Inr (JStr ''ok'')"
    using call_vapi_webhook_precedence [where w = "answering (JObj [(''results'', JArr [JObj [(''result'', JStr ''ok'')]])])"
              and r = "?r (JObj [(''results'', JArr [JObj [(''result'', JStr ''ok'')]])])"
              and kvs = "[(''results'', JArr [JObj [(''result'', JStr ''ok'')]])]"
              and first = "[(''result'', JStr ''ok'')]" and rest = "[]"]
    by (simp add: server_answering is_success_def)
  have b: "fst (call_vapi_webhook ''search_flights'' (JObj [])
         (answering (JObj [(''result'', JStr ''x'')])))
     = Inr (JStr ''x'')"
    using call_vapi_webhook_precedence [where w = "answering (JObj [(''result'', JStr ''x'')])"
              and r = "?r (JObj [(''result'', JStr ''x'')])" and kvs = "[(''result'', JStr ''x'')]"]
    by (simp add: server_answering is_success_def)
  have c: "fst (call_vapi_webhook ''search_flights'' (JObj [])
         (answering (JObj [(''foo'', JInt 1)])))
     = Inr (JStr (''{'' @ [dquote] @ ''foo'' @ [dquote] @ '': 1}''))"
    using call_vapi_webhook_precedence [where w = "answering (JObj [(''foo'', JInt 1)])"
              and r = "?r (JObj [(''foo'', JInt 1)])" and kvs = "[(''foo'', JInt 1)]"]
    by (simp add: server_answering is_success_def json_string_def json_escape_char_def show_int_def
          show_nat.simps hex_digit_def dquote_def backslash_def)
  have d: "\<exists>m. fst (call_vapi_webhook ''search_flights'' (JObj [])
         (answering (JObj [(''results'', JArr [JInt 7])])))
     = Inr (JStr (''Error calling travel service: '' @ m))"
    using call_vapi_webhook_precedence [where w = "answering (JObj [(''results'', JArr [JInt 7])])"
              and r = "?r (JObj [(''results'', JArr [JInt 7])])"
              and kvs = "[(''results'', JArr [JInt 7])]" and rs = "JArr [JInt 7]"]
    by (simp add: server_answering is_success_def)
  from a b c d show ?thesis by blast
qed

text \<open>
  The precedence does not hold for every response. At
  \<^verbatim>\<open>{"results": 5, "result": "x"}\<close> there is no results sequence and a \<^verbatim>\<open>"result"\<close>
  field, yet \<^verbatim>\<open>len(5)\<close> raises and the call returns the error text, not \<^verbatim>\<open>"x"\<close>; at
  \<^verbatim>\<open>{"results": [7]}\<close> the first element has no \<^verbatim>\<open>get\<close> and the call returns the error
  text, not the serialization \<^verbatim>\<open>7\<close>.
\<close>

theorem call_vapi_webhook_precedence_counterexample:
  "fst (call_vapi_webhook ''search_flights'' (JObj [])
         (answering (JObj [(''results'', JInt 5), (''result'', JStr ''x'')])))
     = Inr (JStr (''Error calling travel service: object of type '' @ [squote] @ ''int''
                  @ [squote] @ '' has no len()''))
   \<and> fst (call_vapi_webhook ''search_flights'' (JObj [])
         (answering (JObj [(''results'', JInt 5), (''result'', JStr ''x'')])))
     \<noteq> Inr (JStr ''x'')
   \<and> fst (call_vapi_webhook ''search_flights'' (JObj [])
         (answering (JObj [(''results'', JArr [JInt 7])])))
     = Inr (JStr (''Error calling travel service: '' @ [squote] @ ''int'' @ [squote]
                  @ '' object has no attribute '' @ [squote] @ ''get'' @ [squote]))
   \<and> fst (call_vapi_webhook ''search_flights'' (JObj [])
         (answering (JObj [(''results'', JArr [JInt 7])])))
     \<noteq> Inr (JStr (json_dumps (JInt 7)))"
  by (simp add: fst_call_vapi_webhook server_answering try_body_def raise_for_status_def
        is_success_def select_result_def show_int_def show_nat.simps hex_digit_def)

section \<open>Failures of the webhook call\<close>

text \<open>
  C2. Whatever \<^verbatim>\<open>Exception\<close> the post raises (a transport failure, a timeout), a status
  outside 2xx, whatever \<^verbatim>\<open>Exception\<close> the decoder raises, and whatever the lookups in
  the decoded value raise: the call returns, and the value returned is the text
  \<^verbatim>\<open>Error calling travel service: \<close> followed by \<^verbatim>\<open>str(e)\<close>.
\<close>

theorem call_vapi_webhook_failure:
  "(server w (posted fn args w) = Raises e \<longrightarrow> is_Exception e \<longrightarrow>
      fst (call_vapi_webhook fn args w) =
        Inr (JStr (''Error calling travel service: '' @ str_exn e)))
   \<and> (server w (posted fn args w) = Responds r \<longrightarrow> \<not> is_success r \<longrightarrow>
      fst (call_vapi_webhook fn args w) =
        Inr (JStr (''Error calling travel service: '' @ status_error r)))
   \<and> (server w (posted fn args w) = Responds r \<longrightarrow> is_success r \<longrightarrow>
      body_json r = Inl e \<longrightarrow> is_Exception e \<longrightarrow>
      fst (call_vapi_webhook fn args w) =
        Inr (JStr (''Error calling travel service: '' @ str_exn e)))
   \<and> (server w (posted fn args w) = Responds r \<longrightarrow> is_success r \<longrightarrow>
      body_json r = Inr result \<longrightarrow> select_result result = Inl e \<longrightarrow>
      fst (call_vapi_webhook fn args w) =
        Inr (JStr (''Error calling travel service: '' @ str_exn e)))"
  by (auto simp: fst_call_vapi_webhook try_body_def raise_for_status_def
        dest: select_result_is_Exception)

text \<open>A timeout, and a response with status 500.\<close>

theorem call_vapi_webhook_failure_witness:
  "fst (call_vapi_webhook ''book_flight'' (JObj []) timing_out)
     = Inr (JStr ''Error calling travel service: timed out'')
   \<and> fst (call_vapi_webhook ''book_flight'' (JObj []) failing_500)
     = Inr (JStr ''Error calling travel service: Server error 500 Internal Server Error'')"
proof -
  have "fst (call_vapi_webhook ''book_flight'' (JObj []) timing_out)
     = Inr (JStr ''Error calling travel service: timed out'')"
    using call_vapi_webhook_failure [of timing_out "''book_flight''" "JObj []" "Exn TimeoutException ''timed out''"]
    by (simp add: timing_out_def server_world_with)
  moreover have "fst (call_vapi_webhook ''book_flight'' (JObj []) failing_500)
     = Inr (JStr ''Error calling travel service: Server error 500 Internal Server Error'')"
    using call_vapi_webhook_failure [of failing_500 "''book_flight''" "JObj []" _
       "\<lparr>status_code = 500,
       status_error = ''Server error 500 Internal Server Error'',
       body_json = Inl (Exn JSONDecodeError ''Expecting value: line 1 column 1 (char 0)'')\<rparr>"]
    by (simp add: failing_500_def server_world_with is_success_def)
  ultimately show ?thesis by simp
qed

section \<open>Registration of the tool handlers\<close>

text \<open>
  C3, as the code has it. Five functions are registered. The four that call the webhook
  (\<^verbatim>\<open>search_flights\<close>, \<^verbatim>\<open>book_flight\<close>, \<^verbatim>\<open>search_hotels\<close>, \<^verbatim>\<open>book_hotel\<close>) are registered
  with \<^verbatim>\<open>cancel_on_interruption=False\<close>, so they are not cancellable whatever the
  framework's default is. \<^verbatim>\<open>get_current_date\<close> is registered without the keyword: the
  framework's default decides for it.
\<close>

theorem webhook_tools_not_cancellable:
  "map reg_name (bot_functions run_bot) =
     [''get_current_date'', ''search_flights'', ''book_flight'', ''search_hotels'', ''book_hotel'']
   \<and> (\<forall>r \<in> set (bot_functions run_bot). reg_name r \<noteq> ''get_current_date'' \<longrightarrow>
         reg_cancel_on_interruption r = Some False
         \<and> cancel_on_interruption framework_default r = False)
   \<and> (\<forall>r \<in> set (bot_functions run_bot). reg_name r = ''get_current_date'' \<longrightarrow>
         reg_cancel_on_interruption r = None
         \<and> cancel_on_interruption framework_default r = framework_default)"
  by (simp add: run_bot_def cancel_on_interruption_def)

text \<open>The registration of \<^verbatim>\<open>book_hotel\<close>, the fifth.\<close>

theorem webhook_tools_not_cancellable_witness:
  "reg_name (bot_functions run_bot ! 4) = ''book_hotel''
   \<and> cancel_on_interruption True (bot_functions run_bot ! 4) = False"
proof -
  have "bot_functions run_bot ! 4 \<in> set (bot_functions run_bot)"
    by (simp add: run_bot_def)
  moreover have "reg_name (bot_functions run_bot ! 4) = ''book_hotel''"
    by (simp add: run_bot_def)
  ultimately show ?thesis
    using webhook_tools_not_cancellable [of True] by simp
qed

text \<open>
  Not every registration carries \<^verbatim>\<open>cancel_on_interruption=False\<close>: the one of
  \<^verbatim>\<open>get_current_date\<close> (line 291) passes no keyword, and under a default of \<^verbatim>\<open>True\<close>,
  which is what pipecat's \<^verbatim>\<open>register_function\<close> declares, its calls are cancellable.
\<close>

theorem all_tools_not_cancellable_counterexample:
  "map_option reg_cancel_on_interruption (registered run_bot ''get_current_date'') = Some None
   \<and> map_option (cancel_on_interruption True) (registered run_bot ''get_current_date'') = Some True"
  by (simp add: registered_def run_bot_def cancel_on_interruption_def)

section \<open>The tool schema\<close>

lemma bot_tools_on_events: "bot_tools (on_events evs b) = bot_tools b"
proof (induction evs arbitrary: b)
  case Nil
  show ?case by simp
next
  case (Cons ev evs)
  have "bot_tools (on_event ev b) = bot_tools b"
    by (cases ev) (simp_all add: on_client_connected_def on_client_disconnected_def)
  with Cons show ?case by simp
qed

text \<open>
  C4. \<^verbatim>\<open>TRAVEL_TOOLS\<close> holds five functions, in this order, each with its list of
  required arguments; it is the \<^verbatim>\<open>tools\<close> of the context that \<^verbatim>\<open>run_bot\<close> builds, and no
  transport event changes it.
\<close>

theorem travel_tools_schema:
  "map (\<lambda>t. (tool_name t, tool_required t)) TRAVEL_TOOLS =
     [(Some ''get_current_date'', Some []),
      (Some ''search_flights'', Some [''origin'', ''destination'', ''departure_date'']),
      (Some ''book_flight'',
         Some [''journey_id'', ''offer_id'', ''carrier_name'', ''origin'', ''destination'',
               ''departure_time'', ''arrival_time'', ''price_amount'', ''currency_code'',
               ''cabin_class'']),
      (Some ''search_hotels'', Some [''destination'', ''check_in_date'', ''check_out_date'']),
      (Some ''book_hotel'',
         Some [''hotel_name'', ''hotel_address'', ''city'', ''check_in_date'',
               ''check_out_date'', ''room_type'', ''price_per_night'', ''total_price'',
               ''currency_code''])]
   \<and> bot_tools (on_events evs run_bot) = TRAVEL_TOOLS"
proof -
  have "bot_tools (on_events evs run_bot) = TRAVEL_TOOLS"
    by (simp add: bot_tools_on_events) (simp add: run_bot_def)
  moreover have "map (\<lambda>t. (tool_name t, tool_required t)) TRAVEL_TOOLS =
     [(Some ''get_current_date'', Some []),
      (Some ''search_flights'', Some [''origin'', ''destination'', ''departure_date'']),
      (Some ''book_flight'',
         Some [''journey_id'', ''offer_id'', ''carrier_name'', ''origin'', ''destination'',
               ''departure_time'', ''arrival_time'', ''price_amount'', ''currency_code'',
               ''cabin_class'']),
      (Some ''search_hotels'', Some [''destination'', ''check_in_date'', ''check_out_date'']),
      (Some ''book_hotel'',
         Some [''hotel_name'', ''hotel_address'', ''city'', ''check_in_date'',
               ''check_out_date'', ''room_type'', ''price_per_night'', ''total_price'',
               ''currency_code''])]"
    by (simp add: TRAVEL_TOOLS_def tool_name_def tool_required_def json_field_def)
  ultimately show ?thesis by simp
qed

text \<open>After a connection and a disconnection, the second entry of the table.\<close>

theorem travel_tools_schema_witness:
  "map (\<lambda>t. (tool_name t, tool_required t))
       (bot_tools (on_events [Client_connected, Client_disconnected] run_bot)) ! 1
     = (Some ''search_flights'', Some [''origin'', ''destination'', ''departure_date''])"
  using travel_tools_schema [of "[Client_connected, Client_disconnected]"]
  by simp

section \<open>The greeting\<close>






section \<open>One callback per handler run\<close>

lemma try_body_uncancelled:
  assumes "uncancelled outcome" and "try_body outcome = Inl e"
  shows "is_Exception e"
proof (cases outcome)
  case (Raises e')
  with assms show ?thesis by (simp add: try_body_def)
next
  case (Responds r)
  show ?thesis
  proof (cases "raise_for_status r")
    case (Some e')
    with Responds assms(2) show ?thesis
      by (auto simp: try_body_def raise_for_status_def split: if_splits)
  next
    case None
    with Responds assms show ?thesis
      by (auto simp: try_body_def split: sum.splits dest: select_result_is_Exception)
  qed
qed

lemma call_vapi_webhook_returns:
  assumes "\<forall>req. uncancelled (server w req)"
  shows "\<exists>v. fst (call_vapi_webhook fn args w) = Inr v"
proof (cases "try_body (server w (posted fn args w))")
  case (Inl e)
  moreover from assms have "uncancelled (server w (posted fn args w))" by blast
  ultimately have "is_Exception e" by (rule try_body_uncancelled [rotated])
  with Inl show ?thesis by (simp add: fst_call_vapi_webhook)
next
  case (Inr v)
  then show ?thesis by (simp add: fst_call_vapi_webhook)
qed

lemma then_result_callback_once:
  "fst rw = Inr v \<Longrightarrow> fst (then_result_callback rw) = \<lparr>callbacks = [v], raised = None\<rparr>"
  by (cases rw) (simp add: then_result_callback_def)

text \<open>
  C6, as the code has it. Each of the five registered handlers, run in a world where
  nothing outside \<^verbatim>\<open>Exception\<close> is raised into the webhook call, invokes
  \<^verbatim>\<open>params.result_callback\<close> exactly once and returns: once with the selected result
  when the webhook answers, once with the error text when it fails. A call that no
  \<^verbatim>\<open>Interrupt\<close> aborts is the run of its handler; the four calls of the webhook are
  registered as not cancellable, so they give their one result whether the turn was
  interrupted or not and whatever the framework's default is; a call that an
  \<^verbatim>\<open>Interrupt\<close> aborts, which only \<^verbatim>\<open>get_current_date\<close> can be, makes no callback.
\<close>

theorem handlers_call_back_once:
  assumes "r \<in> set (bot_functions run_bot)"
    and "\<forall>req. uncancelled (server w req)"
  shows "(\<exists>result. fst (reg_handler r args w) = \<lparr>callbacks = [result], raised = None\<rparr>)
    \<and> (\<not> (interrupted \<and> cancel_on_interruption framework_default r) \<longrightarrow>
         run_call framework_default r interrupted args w = reg_handler r args w)
    \<and> (reg_name r \<noteq> ''get_current_date'' \<longrightarrow>
         (\<exists>result. fst (run_call framework_default r interrupted args w)
                     = \<lparr>callbacks = [result], raised = None\<rparr>))
    \<and> (interrupted \<and> cancel_on_interruption framework_default r \<longrightarrow>
         reg_name r = ''get_current_date''
         \<and> callbacks (fst (run_call framework_default r interrupted args w)) = [])"
proof -
  have webhook: "\<exists>result. fst (then_result_callback (call_vapi_webhook fn (JObj args) w))
                    = \<lparr>callbacks = [result], raised = None\<rparr>" for fn
    using call_vapi_webhook_returns [OF assms(2), of fn "JObj args"]
    by (auto dest: then_result_callback_once)
  from assms(1) consider
      "reg_handler r = handle_get_current_date"
    | "reg_handler r = handle_search_flights"
    | "reg_handler r = handle_book_flight"
    | "reg_handler r = handle_search_hotels"
    | "reg_handler r = handle_book_hotel"
    by (auto simp: run_bot_def)
  then have once: "\<exists>result. fst (reg_handler r args w) = \<lparr>callbacks = [result], raised = None\<rparr>"
  proof cases
    case 1
    then show ?thesis by (simp add: handle_get_current_date_def)
  next
    case 2
    with webhook show ?thesis by (simp add: handle_search_flights_def)
  next
    case 3
    with webhook show ?thesis by (simp add: handle_book_flight_def)
  next
    case 4
    with webhook show ?thesis by (simp add: handle_search_hotels_def)
  next
    case 5
    with webhook show ?thesis by (simp add: handle_book_hotel_def)
  qed
  have flag: "\<not> cancel_on_interruption framework_default r" if "reg_name r \<noteq> ''get_current_date''"
    using assms(1) that by (auto simp: run_bot_def cancel_on_interruption_def)
  have "run_call framework_default r interrupted args w = reg_handler r args w"
    if "\<not> (interrupted \<and> cancel_on_interruption framework_default r)"
    using that by (auto simp: run_call_def)
  moreover have "\<exists>result. fst (run_call framework_default r interrupted args w)
                     = \<lparr>callbacks = [result], raised = None\<rparr>"
    if "reg_name r \<noteq> ''get_current_date''"
    using flag [OF that] once by (simp add: run_call_def)
  moreover have "reg_name r = ''get_current_date''
         \<and> callbacks (fst (run_call framework_default r interrupted args w)) = []"
    if "interrupted \<and> cancel_on_interruption framework_default r"
    using that flag by (auto simp: run_call_def)
  ultimately show ?thesis
    using once by blast
qed

text \<open>
  The error path under an \<^verbatim>\<open>Interrupt\<close>: \<^verbatim>\<open>search_flights\<close> against a server that times
  out, in an interrupted turn, under a framework that cancels by default.
\<close>

theorem handlers_call_back_once_witness:
  "fst (run_call True (bot_functions run_bot ! 1) True [(''origin'', JStr ''SFO'')] timing_out)
     = \<lparr>callbacks = [JStr ''Error calling travel service: timed out''], raised = None\<rparr>
   \<and> reg_name (bot_functions run_bot ! 1) = ''search_flights''"
proof -
  let ?r = "bot_functions run_bot ! 1"
  let ?args = "[(''origin'', JStr ''SFO'')]"
  have member: "?r \<in> set (bot_functions run_bot)"
    by (simp add: run_bot_def)
  have quiet: "\<forall>req. uncancelled (server timing_out req)"
    by (simp add: timing_out_def server_world_with)
  have name: "reg_name ?r = ''search_flights''"
    by (simp add: run_bot_def)
  have "\<not> (True \<and> cancel_on_interruption True ?r)"
    by (simp add: run_bot_def cancel_on_interruption_def)
  with handlers_call_back_once [OF member quiet, of ?args True True]
  have "run_call True ?r True ?args timing_out = reg_handler ?r ?args timing_out"
    by blast
  moreover have "fst (reg_handler ?r ?args timing_out)
       = \<lparr>callbacks = [JStr ''Error calling travel service: timed out''], raised = None\<rparr>"
    by (simp add: run_bot_def handle_search_flights_def then_result_callback_def
          call_vapi_webhook_eq timing_out_def server_world_with try_body_def Let_def)
  ultimately show ?thesis
    using name by simp
qed

text \<open>
  Not every call gives one result. A handler whose task is cancelled while it waits
  for the webhook (\<^verbatim>\<open>CancelledError\<close> is no \<^verbatim>\<open>Exception\<close>, so line 84 does not catch it)
  is left without a callback; and \<^verbatim>\<open>get_current_date\<close>, registered on line 291 without
  the keyword, is aborted by an \<^verbatim>\<open>Interrupt\<close> under a framework that cancels by default.
\<close>

theorem handlers_call_back_once_counterexample:
  "fst (handle_search_flights [(''origin'', JStr ''SFO'')] cancelled_at_post)
     = \<lparr>callbacks = [], raised = Some (Exn CancelledError [])\<rparr>
   \<and> reg_name (bot_functions run_bot ! 0) = ''get_current_date''
   \<and> callbacks (fst (run_call True (bot_functions run_bot ! 0) True [] timing_out)) = []"
  by (simp add: handle_search_flights_def then_result_callback_def call_vapi_webhook_eq
        cancelled_at_post_def server_world_with try_body_def Let_def run_bot_def
        run_call_def cancel_on_interruption_def)

section \<open>The request posted to the webhook\<close>

lemma json_field_simps:
  "json_field k (JObj kvs) = map_of kvs k"
  by (simp add: json_field_def)

lemma tool_call_id_of_posted:
  "tool_call_id_of (posted fn args w) = Some (JStr (fn @ ''-'' @ take 8 (uuid4_hex w (uuid_count w))))"
  by (simp add: tool_call_id_of_def posted_eq webhook_request_def webhook_payload_def json_field_simps)

lemma call_id_of_posted:
  "call_id_of (posted fn args w) = Some (JStr (''call-'' @ take 8 (uuid4_hex w (Suc (uuid_count w)))))"
  by (simp add: call_id_of_def posted_eq webhook_request_def webhook_payload_def json_field_simps)

text \<open>
  C7, as the code has it. Every call posts one request, to the webhook's address, whose
  body is \<^verbatim>\<open>{message: {type: "tool-calls", toolCallList: [{id, function: {name,
  arguments}}]}, call: {id}}\<close> with \<^verbatim>\<open>arguments\<close> replaced by \<^verbatim>\<open>{}\<close> when it is
  \<^verbatim>\<open>None\<close> or empty, and whose \<^verbatim>\<open>Authorization\<close> header is \<^verbatim>\<open>Bearer \<close> followed by the
  token. The two identifiers are built from the first eight hexadecimal digits of two
  values drawn from \<^verbatim>\<open>uuid4\<close> in this call: the identifiers of two calls differ
  whenever those eight digits differ.
\<close>

theorem webhook_request_shape:
  "sent (snd (call_vapi_webhook fn args w)) = sent w @ [posted fn args w]
   \<and> uuid_count (snd (call_vapi_webhook fn args w)) = uuid_count w + 2
   \<and> req_url (posted fn args w) = VAPI_WEBHOOK_URL
   \<and> req_json (posted fn args w) =
        JObj [
          (''message'', JObj [
             (''type'', JStr ''tool-calls''),
             (''toolCallList'', JArr [JObj [
                (''id'', JStr (fn @ ''-'' @ take 8 (uuid4_hex w (uuid_count w)))),
                (''function'', JObj [
                   (''name'', JStr fn),
                   (''arguments'', if truthy args then args else JObj [])])]])]),
          (''call'', JObj [(''id'', JStr (''call-'' @ take 8 (uuid4_hex w (uuid_count w + 1))))])]
   \<and> map_of (req_headers (posted fn args w)) ''Authorization'' = Some (''Bearer '' @ VAPI_AUTH_TOKEN)
   \<and> (take 8 (uuid4_hex w (uuid_count w)) \<noteq> take 8 (uuid4_hex w' (uuid_count w')) \<longrightarrow>
        tool_call_id_of (posted fn args w) \<noteq> tool_call_id_of (posted fn args' w'))
   \<and> (take 8 (uuid4_hex w (uuid_count w + 1)) \<noteq> take 8 (uuid4_hex w' (uuid_count w' + 1)) \<longrightarrow>
        call_id_of (posted fn args w) \<noteq> call_id_of (posted fn' args' w'))"
  by (simp add: snd_call_vapi_webhook tool_call_id_of_posted call_id_of_posted)
     (simp add: posted_eq webhook_request_def webhook_payload_def)

text \<open>Two calls in a row, with a generator whose values differ in their first digits.\<close>

theorem webhook_request_shape_witness:
  "req_json (posted ''search_flights'' JNull counting) =
        JObj [
          (''message'', JObj [
             (''type'', JStr ''tool-calls''),
             (''toolCallList'', JArr [JObj [
                (''id'', JStr ''search_flights-10000000''),
                (''function'', JObj [
                   (''name'', JStr ''search_flights''),
                   (''arguments'', JObj [])])]])]),
          (''call'', JObj [(''id'', JStr ''call-10000001'')])]
   \<and> tool_call_id_of (posted ''search_flights'' JNull counting)
       \<noteq> tool_call_id_of (posted ''search_flights'' JNull
             (snd (call_vapi_webhook ''search_flights'' JNull counting)))"
proof -
  have u: "uuid_count counting = 0" "uuid4_hex counting = uuids_counting"
    by (simp_all add: counting_def answering_def world_with_def)
  have v: "uuids_counting 0 = ''10000000000040008000000000000000''"
      "uuids_counting 1 = ''10000001000040008000000000000000''"
      "uuids_counting 2 = ''10000002000040008000000000000000''"
      "uuids_counting (Suc 0) = ''10000001000040008000000000000000''"
      "uuids_counting (Suc (Suc 0)) = ''10000002000040008000000000000000''"
    by (simp_all add: uuids_counting_def show_nat.simps hex_digit_def)
  show ?thesis
    using webhook_request_shape [where fn = "''search_flights''" and args = JNull
            and w = counting and args' = JNull and fn' = "''search_flights''"
            and w' = "snd (call_vapi_webhook ''search_flights'' JNull counting)"]
    by (simp add: u v snd_call_vapi_webhook)
qed

text \<open>
  The identifiers are not unique per call: only eight digits of each \<^verbatim>\<open>uuid4\<close> value
  are kept. Two calls in a row that draw four pairwise distinct values sharing their
  first eight digits post the same \<^verbatim>\<open>toolCallList[0].id\<close> and the same \<^verbatim>\<open>call.id\<close>.
\<close>

theorem correlation_ids_unique_counterexample:
  "uuids_9f1c 0 \<noteq> uuids_9f1c 2 \<and> uuids_9f1c 1 \<noteq> uuids_9f1c 3
   \<and> tool_call_id_of (posted ''search_flights'' (JObj []) timing_out)
       = Some (JStr ''search_flights-9f1c2a7b'')
   \<and> tool_call_id_of (posted ''search_flights'' (JObj [])
         (snd (call_vapi_webhook ''search_flights'' (JObj []) timing_out)))
       = Some (JStr ''search_flights-9f1c2a7b'')
   \<and> call_id_of (posted ''search_flights'' (JObj []) timing_out)
       = Some (JStr ''call-9f1c2a7b'')
   \<and> call_id_of (posted ''search_flights'' (JObj [])
         (snd (call_vapi_webhook ''search_flights'' (JObj []) timing_out)))
       = Some (JStr ''call-9f1c2a7b'')"
proof -
  have u: "uuid_count timing_out = 0" "uuid4_hex timing_out = uuids_9f1c"
    by (simp_all add: timing_out_def world_with_def)
  have v: "uuids_9f1c 0 = ''9f1c2a7b000040008000000000001000''"
      "uuids_9f1c 1 = ''9f1c2a7b000040008000000000001001''"
      "uuids_9f1c 2 = ''9f1c2a7b000040008000000000001002''"
      "uuids_9f1c 3 = ''9f1c2a7b000040008000000000001003''"
      "uuids_9f1c (Suc 0) = ''9f1c2a7b000040008000000000001001''"
      "uuids_9f1c (Suc (Suc 0)) = ''9f1c2a7b000040008000000000001002''"
      "uuids_9f1c (Suc (Suc (Suc 0))) = ''9f1c2a7b000040008000000000001003''"
    by (simp_all add: uuids_9f1c_def show_nat.simps hex_digit_def)
  show ?thesis
    by (simp add: tool_call_id_of_posted call_id_of_posted snd_call_vapi_webhook u v)
qed

section \<open>The current date\<close>

lemma is_digit_hex_digit:
  assumes "n < 10"
  shows "is_digit (hex_digit n)"
proof -
  from assms have "n \<in> {0, 1, 2, 3, 4, 5, 6, 7, 8, 9}" by auto
  then show ?thesis
    by (auto simp: hex_digit_def is_digit_def)
qed

lemma show_nat_1:
  "n < 10 \<Longrightarrow> \<exists>a. show_nat n = [a] \<and> is_digit a"
  by (subst show_nat.simps) (simp add: is_digit_hex_digit)

lemma show_nat_2:
  assumes "10 \<le> n" and "n < 100"
  shows "\<exists>a b. show_nat n = [a, b] \<and> is_digit a \<and> is_digit b"
proof -
  from assms have "n div 10 < 10" by simp
  then obtain a where "show_nat (n div 10) = [a]" "is_digit a"
    using show_nat_1 by blast
  moreover have "is_digit (hex_digit (n mod 10))"
    by (simp add: is_digit_hex_digit)
  ultimately show ?thesis
    using assms by (subst show_nat.simps) simp
qed

lemma show_nat_3:
  assumes "100 \<le> n" and "n < 1000"
  shows "\<exists>a b c. show_nat n = [a, b, c] \<and> is_digit a \<and> is_digit b \<and> is_digit c"
proof -
  from assms have "10 \<le> n div 10" "n div 10 < 100" by simp_all
  then obtain a b where "show_nat (n div 10) = [a, b]" "is_digit a" "is_digit b"
    using show_nat_2 by blast
  moreover have "is_digit (hex_digit (n mod 10))"
    by (simp add: is_digit_hex_digit)
  ultimately show ?thesis
    using assms by (subst show_nat.simps) simp
qed

lemma show_nat_4:
  assumes "1000 \<le> n" and "n < 10000"
  shows "\<exists>a b c d. show_nat n = [a, b, c, d] \<and> is_digit a \<and> is_digit b \<and> is_digit c \<and> is_digit d"
proof -
  from assms have "100 \<le> n div 10" "n div 10 < 1000" by simp_all
  then obtain a b c where "show_nat (n div 10) = [a, b, c]" "is_digit a" "is_digit b" "is_digit c"
    using show_nat_3 by blast
  moreover have "is_digit (hex_digit (n mod 10))"
    by (simp add: is_digit_hex_digit)
  ultimately show ?thesis
    using assms by (subst show_nat.simps) simp
qed

lemma zero_pad_2:
  assumes "n < 100"
  shows "\<exists>a b. zero_pad 2 (show_nat n) = [a, b] \<and> is_digit a \<and> is_digit b"
proof (cases "n < 10")
  case True
  then obtain a where "show_nat n = [a]" "is_digit a"
    using show_nat_1 by blast
  then show ?thesis
    by (simp add: zero_pad_def is_digit_def)
next
  case False
  with assms obtain a b where "show_nat n = [a, b]" "is_digit a" "is_digit b"
    using show_nat_2 [of n] by auto
  then show ?thesis
    by (simp add: zero_pad_def)
qed

lemma strftime_Ymd_shaped:
  assumes "1000 \<le> dt_year d" "dt_year d \<le> 9999" "dt_month d \<le> 12" "dt_day d \<le> 31"
  shows "ymd_shaped (strftime_Ymd d)"
proof -
  obtain y1 y2 y3 y4 where y: "show_nat (dt_year d) = [y1, y2, y3, y4]"
      "is_digit y1" "is_digit y2" "is_digit y3" "is_digit y4"
    using show_nat_4 [of "dt_year d"] assms by auto
  obtain m1 m2 where m: "zero_pad 2 (show_nat (dt_month d)) = [m1, m2]" "is_digit m1" "is_digit m2"
    using zero_pad_2 [of "dt_month d"] assms by auto
  obtain d1 d2 where dd: "zero_pad 2 (show_nat (dt_day d)) = [d1, d2]" "is_digit d1" "is_digit d2"
    using zero_pad_2 [of "dt_day d"] assms by auto
  have "strftime_Ymd d = [y1, y2, y3, y4, CHR ''-'', m1, m2, CHR ''-'', d1, d2]"
    using y(1) m(1) dd(1) by (simp add: strftime_Ymd_def zero_pad_def)
  then show ?thesis
    using y m dd by (simp add: ymd_shaped_def)
qed

lemma digit_value_hex_digit:
  assumes "n < 10"
  shows "digit_value (hex_digit n) = n"
proof -
  from assms have "n \<in> {0, 1, 2, 3, 4, 5, 6, 7, 8, 9}" by auto
  then show ?thesis
    by (auto simp: hex_digit_def digit_value_def)
qed

lemma read_nat_snoc: "read_nat (s @ [c]) = 10 * read_nat s + digit_value c"
  by (simp add: read_nat_def)

lemma read_nat_show_nat: "read_nat (show_nat n) = n"
proof (induction n rule: show_nat.induct)
  case (1 n)
  show ?case
  proof (cases "n < 10")
    case True
    then show ?thesis
      by (subst show_nat.simps) (simp add: read_nat_def digit_value_hex_digit)
  next
    case False
    with "1" have "read_nat (show_nat (n div 10)) = n div 10" by simp
    with False show ?thesis
      by (subst show_nat.simps) (simp add: read_nat_snoc digit_value_hex_digit)
  qed
qed

lemma read_nat_zeros: "foldl (\<lambda>n c. 10 * n + digit_value c) 0 (replicate k (CHR ''0'')) = 0"
  by (induction k) (simp_all add: digit_value_def)

lemma read_nat_zero_pad: "read_nat (zero_pad k s) = read_nat s"
  by (simp add: read_nat_def zero_pad_def read_nat_zeros)

lemma read_ymd_strftime_Ymd:
  assumes "1000 \<le> dt_year d" "dt_year d \<le> 9999" "dt_month d \<le> 12" "dt_day d \<le> 31"
  shows "read_ymd (strftime_Ymd d) = Some d"
proof -
  obtain y1 y2 y3 y4 where y: "show_nat (dt_year d) = [y1, y2, y3, y4]"
    using show_nat_4 [of "dt_year d"] assms by auto
  obtain m1 m2 where m: "zero_pad 2 (show_nat (dt_month d)) = [m1, m2]"
    using zero_pad_2 [of "dt_month d"] assms by auto
  obtain d1 d2 where dd: "zero_pad 2 (show_nat (dt_day d)) = [d1, d2]"
    using zero_pad_2 [of "dt_day d"] assms by auto
  have s: "strftime_Ymd d = [y1, y2, y3, y4, CHR ''-'', m1, m2, CHR ''-'', d1, d2]"
    using y m dd by (simp add: strftime_Ymd_def zero_pad_def)
  have "read_nat [y1, y2, y3, y4] = dt_year d"
    using read_nat_show_nat [of "dt_year d"] by (simp only: y)
  moreover have "read_nat [m1, m2] = dt_month d"
    using read_nat_zero_pad [of 2 "show_nat (dt_month d)"] read_nat_show_nat [of "dt_month d"]
    by (simp only: m)
  moreover have "read_nat [d1, d2] = dt_day d"
    using read_nat_zero_pad [of 2 "show_nat (dt_day d)"] read_nat_show_nat [of "dt_day d"]
    by (simp only: dd)
  moreover have "ymd_shaped (strftime_Ymd d)"
    using assms by (rule strftime_Ymd_shaped)
  ultimately show ?thesis
    by (simp add: read_ymd_def s)
qed

text \<open>
  C8. \<^verbatim>\<open>handle_get_current_date\<close> invokes its callback once, with the clock's date
  printed by \<^verbatim>\<open>strftime("%Y-%m-%d")\<close>, and changes nothing. For a year of four digits
  the result has the form \<^verbatim>\<open>YYYY-MM-DD\<close> and its digits, read back, are the year, the
  month and the day of the clock: the result is today's date and no other. On
  2024-03-10 it is \<^verbatim>\<open>2024-03-10\<close>. The arguments of the call play no part in the
  result: no relative expression is resolved here.
\<close>

theorem get_current_date_result:
  "handle_get_current_date args w =
     (\<lparr>callbacks = [JStr (strftime_Ymd (now w))], raised = None\<rparr>, w)
   \<and> (now w = \<lparr>dt_year = 2024, dt_month = 3, dt_day = 10\<rparr> \<longrightarrow>
        callbacks (fst (handle_get_current_date args w)) = [JStr ''2024-03-10''])
   \<and> (1000 \<le> dt_year (now w) \<and> dt_year (now w) \<le> 9999 \<and> dt_month (now w) \<le> 12
        \<and> dt_day (now w) \<le> 31 \<longrightarrow>
        ymd_shaped (strftime_Ymd (now w))
        \<and> (\<exists>s. callbacks (fst (handle_get_current_date args w)) = [JStr s]
                \<and> read_ymd s = Some (now w)))"
proof -
  have "strftime_Ymd \<lparr>dt_year = 2024, dt_month = 3, dt_day = 10\<rparr> = ''2024-03-10''"
    by (simp add: strftime_Ymd_def zero_pad_def show_nat.simps hex_digit_def)
  then show ?thesis
    by (auto simp: handle_get_current_date_def strftime_Ymd_shaped read_ymd_strftime_Ymd)
qed

text \<open>On 2024-03-10 and on 1999-12-31, whatever the call's arguments say.\<close>

theorem get_current_date_result_witness:
  "handle_get_current_date [(''expression'', JStr ''next Friday'')] timing_out =
     (\<lparr>callbacks = [JStr ''2024-03-10''], raised = None\<rparr>, timing_out)
   \<and> read_ymd ''2024-03-10'' = Some \<lparr>dt_year = 2024, dt_month = 3, dt_day = 10\<rparr>
   \<and> (\<exists>s. callbacks (fst (handle_get_current_date [] new_years_eve)) = [JStr s]
           \<and> read_ymd s = Some \<lparr>dt_year = 1999, dt_month = 12, dt_day = 31\<rparr>)"
proof -
  let ?args = "[(''expression'', JStr ''next Friday'')]"
  note result = get_current_date_result [of ?args timing_out]
  have today: "now timing_out = \<lparr>dt_year = 2024, dt_month = 3, dt_day = 10\<rparr>"
    by (simp add: timing_out_def world_with_def)
  from result have run: "handle_get_current_date ?args timing_out =
      (\<lparr>callbacks = [JStr (strftime_Ymd (now timing_out))], raised = None\<rparr>, timing_out)"
    by blast
  from result today have "callbacks (fst (handle_get_current_date ?args timing_out))
      = [JStr ''2024-03-10'']"
    by blast
  with run have printed: "strftime_Ymd (now timing_out) = ''2024-03-10''"
    by simp
  from result today obtain s where "callbacks (fst (handle_get_current_date ?args timing_out)) = [JStr s]"
      and "read_ymd s = Some (now timing_out)"
    by auto
  with run printed today have reread: "read_ymd ''2024-03-10'' = Some \<lparr>dt_year = 2024, dt_month = 3, dt_day = 10\<rparr>"
    by simp
  have eve: "now new_years_eve = \<lparr>dt_year = 1999, dt_month = 12, dt_day = 31\<rparr>"
    by (simp add: new_years_eve_def)
  then have "1000 \<le> dt_year (now new_years_eve) \<and> dt_year (now new_years_eve) \<le> 9999
      \<and> dt_month (now new_years_eve) \<le> 12 \<and> dt_day (now new_years_eve) \<le> 31"
    by simp
  with get_current_date_result [of "[]" new_years_eve]
  have "\<exists>s. callbacks (fst (handle_get_current_date [] new_years_eve)) = [JStr s]
           \<and> read_ymd s = Some (now new_years_eve)"
    by blast
  then have "\<exists>s. callbacks (fst (handle_get_current_date [] new_years_eve)) = [JStr s]
           \<and> read_ymd s = Some \<lparr>dt_year = 1999, dt_month = 12, dt_day = 31\<rparr>"
    by (simp only: eve)
  with run printed reread show ?thesis
    by simp
qed

section \<open>The timeout of the webhook call\<close>

lemma req_timeout_posted: "req_timeout (posted fn args w) = 30"
  by (simp add: posted_eq webhook_request_def)

lemma sent_then_result_callback:
  "sent (snd (then_result_callback rw)) = sent (snd rw)"
  by (cases rw) (simp add: then_result_callback_def split: sum.splits)

lemma sent_webhook_handler:
  "sent (snd (then_result_callback (call_vapi_webhook fn args w))) = sent w @ [posted fn args w]"
  by (simp add: sent_then_result_callback snd_call_vapi_webhook)

text \<open>
  C9. The client that posts a request is built with \<^verbatim>\<open>timeout=30.0\<close>, whatever the
  function, its arguments and the world: every request a registered handler posts
  carries thirty seconds. The value is set in \<^verbatim>\<open>call_vapi_webhook\<close>; the
  \<^verbatim>\<open>PipelineParams\<close> of \<^verbatim>\<open>run_bot\<close> pass three keywords, none of them a timeout.
\<close>

theorem webhook_timeout_30:
  "req_timeout (posted fn args w) = 30
   \<and> (r \<in> set (bot_functions run_bot) \<longrightarrow> (\<forall>req \<in> set (sent w). req_timeout req = 30) \<longrightarrow>
        (\<forall>req \<in> set (sent (snd (reg_handler r hargs w))). req_timeout req = 30))
   \<and> map fst (bot_params run_bot) =
        [''allow_interruptions'', ''enable_metrics'', ''enable_usage_metrics'']"
proof -
  have "\<forall>req \<in> set (sent (snd (reg_handler r hargs w))). req_timeout req = 30"
    if "r \<in> set (bot_functions run_bot)" and old: "\<forall>req \<in> set (sent w). req_timeout req = 30"
  proof -
    from that(1) consider
        "reg_handler r = handle_get_current_date"
      | "reg_handler r = handle_search_flights"
      | "reg_handler r = handle_book_flight"
      | "reg_handler r = handle_search_hotels"
      | "reg_handler r = handle_book_hotel"
      by (auto simp: run_bot_def)
    then show ?thesis
    proof cases
      case 1
      with old show ?thesis by (simp add: handle_get_current_date_def)
    next
      case 2
      with old show ?thesis
        by (simp add: handle_search_flights_def sent_webhook_handler req_timeout_posted)
    next
      case 3
      with old show ?thesis
        by (simp add: handle_book_flight_def sent_webhook_handler req_timeout_posted)
    next
      case 4
      with old show ?thesis
        by (simp add: handle_search_hotels_def sent_webhook_handler req_timeout_posted)
    next
      case 5
      with old show ?thesis
        by (simp add: handle_book_hotel_def sent_webhook_handler req_timeout_posted)
    qed
  qed
  moreover have "map fst (bot_params run_bot) =
        [''allow_interruptions'', ''enable_metrics'', ''enable_usage_metrics'']"
    by (simp add: run_bot_def)
  ultimately show ?thesis
    using req_timeout_posted by blast
qed

text \<open>The one request \<^verbatim>\<open>search_hotels\<close> posts.\<close>

theorem webhook_timeout_30_witness:
  "map req_timeout (sent (snd (reg_handler (bot_functions run_bot ! 3) [(''destination'', JStr ''Paris'')] timing_out))) = [30]"
proof -
  have "bot_functions run_bot ! 3 \<in> set (bot_functions run_bot)"
    by (simp add: run_bot_def)
  moreover have "\<forall>req \<in> set (sent timing_out). req_timeout req = 30"
    by (simp add: timing_out_def world_with_def)
  ultimately have "\<forall>req \<in> set (sent (snd (reg_handler (bot_functions run_bot ! 3) [(''destination'', JStr ''Paris'')] timing_out))). req_timeout req = 30"
    using webhook_timeout_30 [of "''search_hotels''" "JObj []" timing_out "bot_functions run_bot ! 3"]
    by blast
  moreover have "length (sent (snd (reg_handler (bot_functions run_bot ! 3) [(''destination'', JStr ''Paris'')] timing_out))) = 1"
    by (simp add: run_bot_def handle_search_hotels_def sent_webhook_handler)
       (simp add: timing_out_def world_with_def)
  ultimately show ?thesis
    by (cases "sent (snd (reg_handler (bot_functions run_bot ! 3) [(''destination'', JStr ''Paris'')] timing_out))") auto
qed

end
